theory Spec2Isabelle
  imports Main
begin

section \<open>The confirmation prompt of promptkit (confirmation/prompt.go)\<close>

subsection \<open>Values\<close>

text \<open>
  \<^verbatim>\<open>type Value *bool\<close>: a Value is a pointer to a bool cell, or nil. Go compares
  two Values by the identity of the cell they point to, so a Value is modelled as an
  optional address. The package owns two cells, \<^verbatim>\<open>yes = true\<close> and \<^verbatim>\<open>no = false\<close>;
  \<^verbatim>\<open>Yes\<close> and \<^verbatim>\<open>No\<close> point to them and \<^verbatim>\<open>Undecided\<close> is nil. Every other address
  is a cell allocated by a caller (\<^verbatim>\<open>v := true; c.DefaultValue = &v\<close>).
\<close>

type_synonym addr = nat

type_synonym Value = "addr option"

definition yes_addr :: addr where
  "yes_addr = 0"

definition no_addr :: addr where
  "no_addr = 1"

definition Yes :: Value where
  "Yes = Some yes_addr"

definition No :: Value where
  "No = Some no_addr"

definition Undecided :: Value where
  "Undecided = None"

subsection \<open>Default templates\<close>

definition nl :: string where
  "nl = [CHR 0x0A]"

definition tab :: string where
  "tab = [CHR 0x09]"

definition selected_mark :: string where
  "selected_mark = [CHR 0xE2, CHR 0x97, CHR 0x89]"

definition unselected_mark :: string where
  "unselected_mark = [CHR 0xE2, CHR 0x97, CHR 0x8B]"

definition DefaultTemplate :: string where
  \<open>DefaultTemplate =
     nl @ tab @ ''{{- Bold .Prompt }}{{ " " -}}'' @
     nl @ tab @ ''{{ if .YesSelected -}} '' @ selected_mark @ '' {{- else -}} '' @
                unselected_mark @ '' {{- end -}}'' @
     nl @ tab @ ''{{- print (Bold "Y") "es " -}}'' @
     nl @ tab @ ''{{ if .NoSelected -}} '' @ selected_mark @ '' {{- else -}} '' @
                unselected_mark @ '' {{- end -}}'' @
     nl @ tab @ ''{{- print (Bold "N") "o" -}}'' @
     nl @ tab\<close>

definition DefaultConfirmationTemplate :: string where
  \<open>DefaultConfirmationTemplate =
     nl @ tab @ ''{{- print .Prompt " " -}}'' @
     nl @ tab @ ''{{- if .FinalValue -}}'' @
     nl @ tab @ tab @ ''{{- Foreground "32" "Yes" -}}'' @
     nl @ tab @ ''{{- else -}}'' @
     nl @ tab @ tab @ ''{{- Foreground "32" "No" -}}'' @
     nl @ tab @ ''{{- end -}}'' @
     nl @ tab @ ''{{- "'' @ [CHR 0x5C] @ ''n" -}}'' @
     nl @ tab\<close>

subsection \<open>Key map\<close>

text \<open>
  Modelled from the spec: the type \<^verbatim>\<open>KeyMap\<close> (not in prompt.go). The spec (3, 4.1) gives
  five logical actions and a mapping from each action to the physical key identifiers
  bound to it.
\<close>

datatype Action = SelectYes | SelectNo | Toggle | Submit | Abort

type_synonym KeyMap = "Action \<Rightarrow> string list"

text \<open>
  Modelled from the spec: \<^verbatim>\<open>NewDefaultKeyMap\<close> (not in prompt.go), the default bindings
  of spec 4.1.
\<close>

fun NewDefaultKeyMap :: KeyMap where
  "NewDefaultKeyMap SelectYes = [''y'', ''Y'']"
| "NewDefaultKeyMap SelectNo = [''n'', ''N'']"
| "NewDefaultKeyMap Toggle = [''left'', ''right'', ''tab'']"
| "NewDefaultKeyMap Submit = [''enter'']"
| "NewDefaultKeyMap Abort = [''ctrl+c'', ''esc'']"

text \<open>
  Modelled from the spec: the lookup of a key in the key map (not in prompt.go). Each key
  resolves to zero or one action (spec 6); where two actions share a key the priority of
  spec 4.1 decides: Abort, Submit, SelectYes, SelectNo, Toggle.
\<close>

definition action_of :: "KeyMap \<Rightarrow> string \<Rightarrow> Action option" where
  "action_of km k =
     (if k \<in> set (km Abort) then Some Abort
      else if k \<in> set (km Submit) then Some Submit
      else if k \<in> set (km SelectYes) then Some SelectYes
      else if k \<in> set (km SelectNo) then Some SelectNo
      else if k \<in> set (km Toggle) then Some Toggle
      else None)"

subsection \<open>Configuration\<close>

text \<open>
  \<^verbatim>\<open>io.Writer\<close> and \<^verbatim>\<open>io.Reader\<close> handles: the process's standard streams, or any
  other stream of the caller. \<^verbatim>\<open>template.FuncMap\<close> maps a function name to a function;
  the functions themselves stay abstract (type \<open>'fn\<close>).
\<close>

datatype Writer = OsStdout | OtherWriter nat

datatype Reader = OsStdin | OtherReader nat

type_synonym 'fn FuncMap = "string \<rightharpoonup> 'fn"

record 'fn Confirmation =
  Prompt :: string
  DefaultValue :: Value
  Template :: string
  ConfirmationTemplate :: string
  ExtendedTemplateScope :: "'fn FuncMap"
  KeyMap :: KeyMap
  Output :: Writer
  Input :: Reader

definition New :: "string \<Rightarrow> 'fn Confirmation" where
  "New prompt =
     \<lparr> Prompt = prompt,
       DefaultValue = Undecided,
       Template = DefaultTemplate,
       ConfirmationTemplate = DefaultConfirmationTemplate,
       ExtendedTemplateScope = Map.empty,
       KeyMap = NewDefaultKeyMap,
       Output = OsStdout,
       Input = OsStdin \<rparr>"

subsection \<open>Templates and the environment of a run\<close>

text \<open>
  A template receives a \<^verbatim>\<open>map[string]interface{}\<close>; a parsed template is what
  \<^verbatim>\<open>Execute\<close> does with that map: the bytes it puts into the buffer and the error it
  returns, if any (a failing execution may have written part of its output).
\<close>

datatype TVal = VBool bool | VString string | VInt int

type_synonym TmplData = "string \<rightharpoonup> TVal"

type_synonym Tmpl = "TmplData \<Rightarrow> string \<times> string option"

text \<open>
  What prompt.go calls and does not define. \<^verbatim>\<open>Funcs\<close> tells whether
  \<^verbatim>\<open>tmpl.Funcs\<close> accepts a function map: it panics on a value that is not a function
  or on a name that cannot be used in a template. \<^verbatim>\<open>Parse\<close> is \<^verbatim>\<open>tmpl.Parse\<close> with
  the helper functions and the given map installed. \<^verbatim>\<open>Wrap\<close> is \<^verbatim>\<open>promptkit.Wrap\<close>.
  \<^verbatim>\<open>Fprint\<close> is \<^verbatim>\<open>fmt.Fprint\<close> on a stream: the number of bytes written and the error
  of the write, if any.
\<close>

record 'fn Env =
  Funcs :: "'fn FuncMap \<Rightarrow> bool"
  Parse :: "'fn FuncMap \<Rightarrow> string \<Rightarrow> string + Tmpl"
  Wrap :: "string \<Rightarrow> int \<Rightarrow> string"
  Fprint :: "Writer \<Rightarrow> string \<Rightarrow> nat \<times> string option"

text \<open>
  Setting up a template ends in a parsed template, in the error of \<^verbatim>\<open>Parse\<close>, or in
  the panic of \<^verbatim>\<open>Funcs\<close>.
\<close>

datatype TmplErr = ParseError string | FuncsPanic

subsection \<open>The running model\<close>

text \<open>
  Modelled from the spec: the type \<^verbatim>\<open>Model\<close> (not in prompt.go, which only uses
  \<^verbatim>\<open>m.Prompt\<close> and \<^verbatim>\<open>m.DefaultValue\<close> of the embedded Confirmation, \<^verbatim>\<open>m.width\<close> and
  \<^verbatim>\<open>m.Value()\<close>). The spec (3, RunState) gives the live state: the current Value, the
  terminal width, and a termination flag over running, submitted, aborted. A failure of
  the live rendering must be surfaced as an error (spec 4.3): the model keeps it. The
  width starts at Go's zero value.
\<close>

datatype Termination = Running | Submitted | Aborted

record 'fn Model =
  conf :: "'fn Confirmation"
  cur_value :: Value
  width :: int
  term_flag :: Termination
  render_err :: "string option"

text \<open>
  Modelled from the spec: \<^verbatim>\<open>NewModel\<close> (not in prompt.go). The initial state is
  (DefaultValue, Running) (spec 4.2), with no rendering failure yet.
\<close>

definition NewModel :: "'fn Confirmation \<Rightarrow> 'fn Model" where
  "NewModel c =
     \<lparr> conf = c, cur_value = DefaultValue c, width = 0, term_flag = Running,
       render_err = None \<rparr>"

text \<open>
  Modelled from the spec: the events of the key event source (spec 6), a key press with
  its key identifier or a resize with the new width.
\<close>

datatype Msg = KeyMsg string | WindowSizeMsg int

text \<open>
  Modelled from the spec: the Toggle transition on values (not in prompt.go). Toggle flips
  Yes and No; on Undecided it has no effect (spec 4.2).
\<close>

definition toggle :: "Value \<Rightarrow> Value" where
  "toggle v = (if v = Yes then No else if v = No then Yes else v)"

text \<open>
  Modelled from the spec: the transitions of the Controller (not in prompt.go), spec 4.2.
  SelectYes and SelectNo set the value, Toggle toggles it, Submit and Abort set the
  termination flag and leave the value alone.
\<close>

fun step :: "Action \<Rightarrow> 'fn Model \<Rightarrow> 'fn Model" where
  "step SelectYes m = m\<lparr>cur_value := Yes\<rparr>"
| "step SelectNo m = m\<lparr>cur_value := No\<rparr>"
| "step Toggle m = m\<lparr>cur_value := toggle (cur_value m)\<rparr>"
| "step Submit m = m\<lparr>term_flag := Submitted\<rparr>"
| "step Abort m = m\<lparr>term_flag := Aborted\<rparr>"

text \<open>
  Modelled from the spec: \<^verbatim>\<open>Update\<close> (not in prompt.go), the Controller of spec 4.2. A
  key makes the transition of the action it resolves to, an unmapped key changes nothing,
  a resize sets only the width.
\<close>

fun Update :: "'fn Model \<Rightarrow> Msg \<Rightarrow> 'fn Model" where
  "Update m (KeyMsg k) =
     (case action_of (KeyMap (conf m)) k of
        None \<Rightarrow> m
      | Some a \<Rightarrow> step a m)"
| "Update m (WindowSizeMsg w) = m\<lparr>width := w\<rparr>"

text \<open>
  Modelled from the spec: the errors of \<^verbatim>\<open>Model.Value\<close> (not in prompt.go): the
  AbortError and the ValueReadError of spec 7, and the rendering failure of spec 4.3.
\<close>

datatype ModelErr = ErrAborted | ErrNoDecision | ErrRender string

text \<open>
  Modelled from the spec: the coercion of a Value to the boolean decision (not in
  prompt.go). Spec 8: coercion(Yes) = true, coercion(No) = false,
  coercion(Undecided) = false.
\<close>

definition coercion :: "Value \<Rightarrow> bool" where
  "coercion v = (v = Yes)"

text \<open>
  Modelled from the spec: \<^verbatim>\<open>Model.Value\<close> (not in prompt.go). A failure of the live
  rendering is surfaced as an error (spec 4.3). Otherwise, after Submit the decided
  value is the coercion of the current Value and no error is reported (spec 4.2, 7);
  after Abort the cancellation error is returned (AbortError); a model that is still
  running has no decided value (ValueReadError).
\<close>

definition Model_Value :: "'fn Model \<Rightarrow> ModelErr + bool" where
  "Model_Value m =
     (case render_err m of
        Some e \<Rightarrow> Inl (ErrRender e)
      | None \<Rightarrow>
          (case term_flag m of
             Submitted \<Rightarrow> Inr (coercion (cur_value m))
           | Aborted \<Rightarrow> Inl ErrAborted
           | Running \<Rightarrow> Inl ErrNoDecision))"

subsection \<open>The live rendering\<close>

text \<open>
  Modelled from the spec: the set-up of the live template (not in prompt.go). The
  template text is the field \<^verbatim>\<open>Template\<close>, or \<^verbatim>\<open>DefaultTemplate\<close> when the field is
  empty (the field's comment in prompt.go); the functions of the extended scope are
  installed as for the confirmed template (spec 4.3, 6).
\<close>

definition initTemplate :: "'fn Env \<Rightarrow> 'fn Confirmation \<Rightarrow> TmplErr + Tmpl" where
  "initTemplate env c =
     (if \<not> Funcs env (ExtendedTemplateScope c) then Inl FuncsPanic
      else (case Parse env (ExtendedTemplateScope c)
                   (if Template c = [] then DefaultTemplate else Template c) of
              Inl err \<Rightarrow> Inl (ParseError err)
            | Inr tmpl \<Rightarrow> Inr tmpl))"

text \<open>
  Modelled from the spec: the variables of the live template (spec 4.3 and the comment
  of the field \<^verbatim>\<open>Template\<close> in prompt.go).
\<close>

definition live_data :: "'fn Model \<Rightarrow> TmplData" where
  "live_data m =
     map_of
       [(''Prompt'', VString (Prompt (conf m))),
        (''YesSelected'', VBool (cur_value m = Yes)),
        (''NoSelected'', VBool (cur_value m = No)),
        (''Undecided'', VBool (cur_value m = Undecided)),
        (''DefaultYes'', VBool (DefaultValue (conf m) = Yes)),
        (''DefaultNo'', VBool (DefaultValue (conf m) = No)),
        (''DefaultUndecided'', VBool (DefaultValue (conf m) = Undecided)),
        (''TerminalWidth'', VInt (width m))]"

text \<open>
  Modelled from the spec: the Renderer on the live template (not in prompt.go), spec 4.3.
  The template is executed on the variables of the state and the text is wrapped to the
  terminal width; a failing execution is an error. Once the input is confirmed or
  aborted the input itself has disappeared (the comment of \<^verbatim>\<open>ConfirmationTemplate\<close> in
  prompt.go): the view is empty.
\<close>

definition View :: "'fn Env \<Rightarrow> Tmpl \<Rightarrow> 'fn Model \<Rightarrow> string + string" where
  "View env t m =
     (if term_flag m \<noteq> Running then Inr []
      else (case t (live_data m) of
              (buffer, Some err) \<Rightarrow> Inl err
            | (buffer, None) \<Rightarrow> Inr (Wrap env buffer (width m))))"

subsection \<open>The event loop\<close>

text \<open>
  The writes of a run, in order: the stream and the bytes that reached it.
\<close>

type_synonym Log = "(Writer \<times> string) list"

text \<open>
  The terminal session is the sequence of what each read of the input gives: a message,
  or an I/O failure.
\<close>

datatype Event = Deliver Msg | Fail string

text \<open>
  How the loop can end without a final model: an I/O failure on the terminal, a panic,
  or not at all (the input gives nothing more and the loop keeps waiting).
\<close>

datatype LoopStop = IOFailure string | LoopPanic | NeverReturns

text \<open>
  Modelled from the spec: the hosting event loop (\<^verbatim>\<open>tea.Program.Start\<close> with
  \<^verbatim>\<open>tea.WithOutput(c.Output)\<close>, not in prompt.go), spec 4.4 and 5. It hands one
  message at a time to \<open>Update\<close>, then renders the view and writes it to the output of
  the configuration, until the model leaves \<open>Running\<close>. A failing render stops the loop
  with the failure kept in the model, so that it is surfaced as an error (spec 4.3). An
  I/O failure ends the loop with its error (spec 7, RunError). When the input gives
  nothing more while the model is still running, the loop keeps waiting: it never
  returns.
\<close>

fun run_loop ::
  "'fn Env \<Rightarrow> Tmpl \<Rightarrow> 'fn Model \<Rightarrow> Event list \<Rightarrow> (LoopStop + 'fn Model) \<times> Log" where
  "run_loop env t m [] = (Inl NeverReturns, [])"
| "run_loop env t m (Fail e # rest) = (Inl (IOFailure e), [])"
| "run_loop env t m (Deliver x # rest) =
     (let m' = Update m x
      in case View env t m' of
           Inl err \<Rightarrow> (Inr (m'\<lparr>render_err := Some err\<rparr>), [])
         | Inr shown \<Rightarrow>
             if term_flag m' = Running
             then (case run_loop env t m' rest of
                     (r, out) \<Rightarrow> (r, (Output (conf m'), shown) # out))
             else (Inr m', [(Output (conf m'), shown)]))"

text \<open>
  Modelled from the spec: the start of the loop (\<^verbatim>\<open>p.Start()\<close>, not in prompt.go). It
  can fail to start (spec 7, RunError); otherwise the live template is set up (a parse
  error is a rendering failure, kept in the model; the panic of \<^verbatim>\<open>Funcs\<close> is a panic
  of the run) and the first view is rendered and written before any message is read.
\<close>

definition Start ::
  "'fn Env \<Rightarrow> 'fn Model \<Rightarrow> Event list \<Rightarrow> (LoopStop + 'fn Model) \<times> Log" where
  "Start env m evs =
     (case evs of
        Fail e # rest \<Rightarrow> (Inl (IOFailure e), [])
      | _ \<Rightarrow>
          (case initTemplate env (conf m) of
             Inl FuncsPanic \<Rightarrow> (Inl LoopPanic, [])
           | Inl (ParseError err) \<Rightarrow> (Inr (m\<lparr>render_err := Some err\<rparr>), [])
           | Inr t \<Rightarrow>
               (case View env t m of
                  Inl err \<Rightarrow> (Inr (m\<lparr>render_err := Some err\<rparr>), [])
                | Inr shown \<Rightarrow>
                    (case run_loop env t m evs of
                       (r, out) \<Rightarrow> (r, (Output (conf m), shown) # out)))))"

subsection \<open>RunPrompt\<close>

text \<open>
  The errors of \<^verbatim>\<open>RunPrompt\<close>, one constructor for each place that returns one:
  "initializing confirmation template: ...", "running prompt: ...",
  "reading value: ...", "execute confirmation template: ...", and the error of
  the final write, returned as it is.
\<close>

datatype Error =
    InitTemplateErr string
  | RunErr string
  | ReadValueErr ModelErr
  | ExecTemplateErr string
  | WriteErr string

text \<open>
  \<^verbatim>\<open>RunPrompt\<close> returns a bool and an error (\<open>None\<close> is nil), or it panics
  (\<^verbatim>\<open>tmpl.Funcs\<close> on a bad function map; executing a nil template), or it does not
  return because the event loop does not.
\<close>

datatype Result = Return bool "Error option" | Panic | Blocked

text \<open>
  \<^verbatim>\<open>initConfirmationTemplate\<close>: with an empty confirmed template it returns
  \<^verbatim>\<open>nil, nil\<close>. Otherwise it installs the helper functions of the libraries and the
  extended scope of the caller with \<^verbatim>\<open>tmpl.Funcs\<close>, which panics on a function map it
  does not accept, and returns what \<^verbatim>\<open>tmpl.Parse\<close> returns on the template text.
\<close>

definition initConfirmationTemplate ::
  "'fn Env \<Rightarrow> 'fn Confirmation \<Rightarrow> TmplErr + Tmpl option" where
  "initConfirmationTemplate env c =
     (if ConfirmationTemplate c = [] then Inr None
      else if \<not> Funcs env (ExtendedTemplateScope c) then Inl FuncsPanic
      else (case Parse env (ExtendedTemplateScope c) (ConfirmationTemplate c) of
              Inl err \<Rightarrow> Inl (ParseError err)
            | Inr tmpl \<Rightarrow> Inr (Some tmpl)))"

text \<open>
  \<^verbatim>\<open>fmt.Sprintf("%v", value)\<close> on a bool, and the map that \<^verbatim>\<open>RunPrompt\<close> hands to
  \<^verbatim>\<open>tmpl.Execute\<close>. The default flags compare the pointer \<^verbatim>\<open>m.DefaultValue\<close> with
  \<^verbatim>\<open>Yes\<close>, \<^verbatim>\<open>No\<close> and \<^verbatim>\<open>Undecided\<close>.
\<close>

definition Sprintf_v :: "bool \<Rightarrow> string" where
  "Sprintf_v b = (if b then ''true'' else ''false'')"

definition confirmation_data :: "bool \<Rightarrow> 'fn Model \<Rightarrow> TmplData" where
  "confirmation_data v m =
     map_of
       [(''FinalValue'', VBool v),
        (''FinalValueString'', VString (Sprintf_v v)),
        (''Prompt'', VString (Prompt (conf m))),
        (''DefaultYes'', VBool (DefaultValue (conf m) = Yes)),
        (''DefaultNo'', VBool (DefaultValue (conf m) = No)),
        (''DefaultUndecided'', VBool (DefaultValue (conf m) = Undecided)),
        (''TerminalWidth'', VInt (width m))]"

text \<open>
  \<^verbatim>\<open>RunPrompt\<close>, statement by statement, on a terminal session: the result and the
  writes of the run. The confirmed render is written with
  \<^verbatim>\<open>fmt.Fprint(os.Stdout, ...)\<close>; the bytes that reached the stream are those that
  \<^verbatim>\<open>Fprint\<close> reports as written.
\<close>

definition RunPrompt :: "'fn Env \<Rightarrow> 'fn Confirmation \<Rightarrow> Event list \<Rightarrow> Result \<times> Log" where
  "RunPrompt env c evs =
     (case initConfirmationTemplate env c of
        Inl FuncsPanic \<Rightarrow> (Panic, [])
      | Inl (ParseError err) \<Rightarrow> (Return False (Some (InitTemplateErr err)), [])
      | Inr tmpl \<Rightarrow>
          (case Start env (NewModel c) evs of
             (Inl (IOFailure err), out) \<Rightarrow> (Return False (Some (RunErr err)), out)
           | (Inl LoopPanic, out) \<Rightarrow> (Panic, out)
           | (Inl NeverReturns, out) \<Rightarrow> (Blocked, out)
           | (Inr m, out) \<Rightarrow>
               (case Model_Value m of
                  Inl err \<Rightarrow> (Return False (Some (ReadValueErr err)), out)
                | Inr v \<Rightarrow>
                    if ConfirmationTemplate c = [] then (Return v None, out)
                    else
                      (case tmpl of
                         None \<Rightarrow> (Panic, out)
                       | Some t \<Rightarrow>
                           (case t (confirmation_data v m) of
                              (buffer, Some err) \<Rightarrow>
                                (Return v (Some (ExecTemplateErr err)), out)
                            | (buffer, None) \<Rightarrow>
                                (let text = Wrap env buffer (width m);
                                     (n, werr) = Fprint env OsStdout text
                                 in (Return v (map_option WriteErr werr),
                                     out @ [(OsStdout, take n text)])))))))"

subsection \<open>What happened in a run\<close>

text \<open>
  A message ends the loop when its key resolves to Submit or Abort.
\<close>

definition quits :: "KeyMap \<Rightarrow> Msg \<Rightarrow> bool" where
  "quits km x =
     (case x of
        KeyMsg k \<Rightarrow> action_of km k = Some Submit \<or> action_of km k = Some Abort
      | WindowSizeMsg w \<Rightarrow> False)"

text \<open>
  The live view renders at a state; it renders at every state of a run that starts at
  a state and receives the given messages.
\<close>

definition renders :: "'fn Env \<Rightarrow> Tmpl \<Rightarrow> 'fn Model \<Rightarrow> bool" where
  "renders env t m = (case View env t m of Inl err \<Rightarrow> False | Inr shown \<Rightarrow> True)"

fun renders_along :: "'fn Env \<Rightarrow> Tmpl \<Rightarrow> 'fn Model \<Rightarrow> Msg list \<Rightarrow> bool" where
  "renders_along env t m [] = renders env t m"
| "renders_along env t m (x # xs) = (renders env t m \<and> renders_along env t (Update m x) xs)"

fun err_of :: "Result \<Rightarrow> Error option" where
  "err_of (Return b e) = e"
| "err_of Panic = None"
| "err_of Blocked = None"

text \<open>
  The events a run can meet, read off the answers of the environment. The loop is
  started only when the set-up of the confirmed template returned without an error.
\<close>

definition loop_end ::
  "'fn Env \<Rightarrow> 'fn Confirmation \<Rightarrow> Event list \<Rightarrow> (LoopStop + 'fn Model) option" where
  "loop_end env c evs =
     (case initConfirmationTemplate env c of
        Inl err \<Rightarrow> None
      | Inr tmpl \<Rightarrow> Some (fst (Start env (NewModel c) evs)))"

text \<open>The confirmed template did not parse.\<close>

definition parse_failed :: "'fn Env \<Rightarrow> 'fn Confirmation \<Rightarrow> bool" where
  "parse_failed env c =
     (case initConfirmationTemplate env c of
        Inl (ParseError err) \<Rightarrow> True
      | Inl FuncsPanic \<Rightarrow> False
      | Inr tmpl \<Rightarrow> False)"

text \<open>The event loop was started and ended with an I/O failure.\<close>

definition loop_failed :: "'fn Env \<Rightarrow> 'fn Confirmation \<Rightarrow> Event list \<Rightarrow> bool" where
  "loop_failed env c evs =
     (case loop_end env c evs of
        Some (Inl (IOFailure err)) \<Rightarrow> True
      | _ \<Rightarrow> False)"

text \<open>The loop ended in \<open>Aborted\<close>.\<close>

definition user_aborted :: "'fn Env \<Rightarrow> 'fn Confirmation \<Rightarrow> Event list \<Rightarrow> bool" where
  "user_aborted env c evs =
     (case loop_end env c evs of
        Some (Inr m) \<Rightarrow> term_flag m = Aborted
      | _ \<Rightarrow> False)"

text \<open>The live template did not parse, or its execution failed.\<close>

definition live_render_failed :: "'fn Env \<Rightarrow> 'fn Confirmation \<Rightarrow> Event list \<Rightarrow> bool" where
  "live_render_failed env c evs =
     (case loop_end env c evs of
        Some (Inr m) \<Rightarrow> render_err m \<noteq> None
      | _ \<Rightarrow> False)"

text \<open>
  The execution of the confirmed template, when the run reaches it: the buffer and the
  error.
\<close>

definition executed ::
  "'fn Env \<Rightarrow> 'fn Confirmation \<Rightarrow> Event list \<Rightarrow> (string \<times> string option) option" where
  "executed env c evs =
     (case initConfirmationTemplate env c of
        Inr (Some t) \<Rightarrow>
          (case fst (Start env (NewModel c) evs) of
             Inr m \<Rightarrow>
               (case Model_Value m of
                  Inl err \<Rightarrow> None
                | Inr v \<Rightarrow> Some (t (confirmation_data v m)))
           | Inl stop \<Rightarrow> None)
      | _ \<Rightarrow> None)"

text \<open>The confirmed template was executed and returned an error.\<close>

definition exec_failed :: "'fn Env \<Rightarrow> 'fn Confirmation \<Rightarrow> Event list \<Rightarrow> bool" where
  "exec_failed env c evs =
     (case executed env c evs of
        None \<Rightarrow> False
      | Some (buffer, err) \<Rightarrow> err \<noteq> None)"

definition final_width :: "'fn Env \<Rightarrow> 'fn Confirmation \<Rightarrow> Event list \<Rightarrow> int" where
  "final_width env c evs =
     (case fst (Start env (NewModel c) evs) of Inl stop \<Rightarrow> 0 | Inr m \<Rightarrow> width m)"

text \<open>
  The confirmed render was written and the write returned an error: the write of the
  wrapped buffer on the stream that the run wrote it to, the last write of its log.
\<close>

definition write_failed :: "'fn Env \<Rightarrow> 'fn Confirmation \<Rightarrow> Event list \<Rightarrow> bool" where
  "write_failed env c evs =
     (case executed env c evs of
        None \<Rightarrow> False
      | Some (buffer, Some err) \<Rightarrow> False
      | Some (buffer, None) \<Rightarrow>
          snd (Fprint env (fst (last (snd (RunPrompt env c evs))))
                 (Wrap env buffer (final_width env c evs))) \<noteq> None)"

text \<open>
  The three booleans that the confirmed template receives about the default value, and
  the property that exactly one boolean of a list is true.
\<close>

definition default_flags :: "TmplData \<Rightarrow> bool list" where
  "default_flags d =
     [d ''DefaultYes'' = Some (VBool True),
      d ''DefaultNo'' = Some (VBool True),
      d ''DefaultUndecided'' = Some (VBool True)]"

definition exactly_one :: "bool list \<Rightarrow> bool" where
  "exactly_one bs = (length (filter id bs) = 1)"

subsection \<open>A concrete environment\<close>

text \<open>
  A small environment to run the prompt on: a template engine that accepts every
  function map and knows four texts (one that does not parse, one that fails after it
  has written part of its output, the default live template, which shows the current
  value, and any other text, which prints the prompt and the final value), no wrapping,
  and writes that succeed.
\<close>

definition demo_tmpl :: Tmpl where
  "demo_tmpl d =
     (case (d ''Prompt'', d ''FinalValueString'') of
        (Some (VString p), Some (VString s)) \<Rightarrow> (p @ '' '' @ s, None)
      | _ \<Rightarrow> ([], Some ''missing field''))"

definition failing_tmpl :: Tmpl where
  "failing_tmpl d = (''partial'', Some ''error calling fail'')"

definition demo_live_tmpl :: Tmpl where
  "demo_live_tmpl d =
     (if d ''YesSelected'' = Some (VBool True) then (''[x] yes [ ] no'', None)
      else if d ''NoSelected'' = Some (VBool True) then (''[ ] yes [x] no'', None)
      else (''[ ] yes [ ] no'', None))"

definition demo_parse :: "unit FuncMap \<Rightarrow> string \<Rightarrow> string + Tmpl" where
  "demo_parse scope src =
     (if src = ''{{'' then Inl ''unclosed action''
      else if src = ''{{ fail }}'' then Inr failing_tmpl
      else if src = DefaultTemplate then Inr demo_live_tmpl
      else Inr demo_tmpl)"

definition demo_env :: "unit Env" where
  "demo_env =
     \<lparr> Funcs = (\<lambda>scope. True),
       Parse = demo_parse,
       Wrap = (\<lambda>s w. s),
       Fprint = (\<lambda>w s. (length s, None)) \<rparr>"

definition closed_stdout_env :: "unit Env" where
  "closed_stdout_env =
     demo_env\<lparr>Fprint := (\<lambda>w s. if w = OsStdout then (0, Some ''file already closed'')
                               else (length s, None))\<rparr>"

definition demo_conf :: "unit Confirmation" where
  "demo_conf = New ''Continue?''"

section \<open>Properties of the event loop\<close>

lemma step_conf [simp]: "conf (step a m) = conf m"
  by (cases a) simp_all

lemma Update_conf [simp]: "conf (Update m x) = conf m"
  by (cases x) (simp_all split: option.splits)

lemma step_render_err [simp]: "render_err (step a m) = render_err m"
  by (cases a) simp_all

lemma Update_render_err [simp]: "render_err (Update m x) = render_err m"
  by (cases x) (simp_all split: option.splits)

lemma step_Running:
  "term_flag m = Running \<Longrightarrow>
     (term_flag (step a m) = Running) = (a \<noteq> Submit \<and> a \<noteq> Abort)"
  by (cases a) simp_all

lemma Update_Running:
  "term_flag m = Running \<Longrightarrow>
     (term_flag (Update m x) = Running) = (\<not> quits (KeyMap (conf m)) x)"
  by (cases x) (auto simp: quits_def step_Running split: option.splits)

lemma foldl_Update_conf [simp]: "conf (foldl Update m pre) = conf m"
  by (induction pre arbitrary: m) simp_all

lemma foldl_Update_Running:
  "term_flag m = Running \<Longrightarrow> \<forall>x\<in>set pre. \<not> quits (KeyMap (conf m)) x \<Longrightarrow>
     term_flag (foldl Update m pre) = Running"
  by (induction pre arbitrary: m) (simp_all add: Update_Running)

lemma View_stopped: "term_flag m \<noteq> Running \<Longrightarrow> View env t m = Inr []"
  by (simp add: View_def)

lemma View_Inl_Running: "View env t m = Inl err \<Longrightarrow> term_flag m = Running"
  by (cases "term_flag m = Running") (simp_all add: View_def)

lemma renders_Inr: "renders env t m \<Longrightarrow> \<exists>shown. View env t m = Inr shown"
  by (cases "View env t m") (simp_all add: renders_def)

lemma renders_along_first: "renders_along env t m pre \<Longrightarrow> renders env t m"
  by (cases pre) simp_all

lemma run_loop_prefix:
  "term_flag m = Running \<Longrightarrow> \<forall>x\<in>set pre. \<not> quits (KeyMap (conf m)) x \<Longrightarrow>
   renders_along env t m pre \<Longrightarrow>
     fst (run_loop env t m (map Deliver pre @ rest)) =
     fst (run_loop env t (foldl Update m pre) rest)"
proof (induction pre arbitrary: m)
  case Nil
  then show ?case by simp
next
  case (Cons x pre)
  have r: "term_flag (Update m x) = Running"
    using Cons.prems by (simp add: Update_Running)
  have ra: "renders_along env t (Update m x) pre"
    using Cons.prems by simp
  obtain shown where v: "View env t (Update m x) = Inr shown"
    using renders_Inr [OF renders_along_first [OF ra]] by blast
  have "fst (run_loop env t (Update m x) (map Deliver pre @ rest)) =
        fst (run_loop env t (foldl Update (Update m x) pre) rest)"
    using Cons.prems r ra by (intro Cons.IH) simp_all
  then show ?case
    using r v by (simp add: Let_def case_prod_beta del: Update.simps)
qed

lemma run_loop_quit:
  "term_flag m = Running \<Longrightarrow> quits (KeyMap (conf m)) x \<Longrightarrow>
     fst (run_loop env t m (Deliver x # rest)) = Inr (Update m x)"
proof -
  assume a: "term_flag m = Running" "quits (KeyMap (conf m)) x"
  then have r: "term_flag (Update m x) \<noteq> Running"
    by (simp add: Update_Running)
  show ?thesis
    using r View_stopped [OF r, of env t] by (simp add: Let_def del: Update.simps)
qed

lemma fst_Start:
  assumes "initTemplate env (conf m) = Inr t"
    and "renders env t m"
    and "evs = map Deliver pre @ Deliver x # rest"
  shows "fst (Start env m evs) = fst (run_loop env t m evs)"
proof -
  obtain shown where v: "View env t m = Inr shown"
    using renders_Inr [OF assms(2)] by blast
  obtain y ys where e: "evs = Deliver y # ys"
    using assms(3) by (cases pre) simp_all
  show ?thesis
    unfolding Start_def e using assms(1) v
    by (simp add: case_prod_beta del: run_loop.simps)
qed

lemma run_loop_Inr:
  "render_err m = None \<Longrightarrow> run_loop env t m evs = (Inr m', out) \<Longrightarrow>
     (term_flag m' = Running \<and> render_err m' \<noteq> None) \<or>
     (term_flag m' \<noteq> Running \<and> render_err m' = None)"
proof (induction env t m evs arbitrary: out rule: run_loop.induct)
  case (1 env t m)
  then show ?case by simp
next
  case (2 env t m e rest)
  then show ?case by simp
next
  case (3 env t m x rest)
  have re: "render_err (Update m x) = None"
    using "3.prems"(1) by simp
  show ?case
  proof (cases "View env t (Update m x)")
    case (Inl err)
    then have "term_flag (Update m x) = Running"
      by (rule View_Inl_Running)
    moreover have "m' = (Update m x)\<lparr>render_err := Some err\<rparr>"
      using "3.prems"(2) Inl by (simp add: Let_def del: Update.simps)
    ultimately show ?thesis by (simp del: Update.simps)
  next
    case (Inr shown)
    show ?thesis
    proof (cases "term_flag (Update m x) = Running")
      case True
      obtain r o' where ro: "run_loop env t (Update m x) rest = (r, o')"
        by (cases "run_loop env t (Update m x) rest")
      with True Inr "3.prems"(2) have "r = Inr m'"
        by (simp add: Let_def del: Update.simps)
      with "3.IH" [OF refl Inr True re] ro show ?thesis by simp
    next
      case False
      with "3.prems"(2) Inr have "m' = Update m x"
        by (simp add: Let_def del: Update.simps)
      with False re show ?thesis by (simp del: Update.simps)
    qed
  qed
qed

lemma Start_Inr:
  assumes "Start env (NewModel c) evs = (Inr m, out)"
  shows "(term_flag m = Running \<and> render_err m \<noteq> None) \<or>
         (term_flag m \<noteq> Running \<and> render_err m = None)"
proof -
  let ?m0 = "NewModel c"
  have r0: "term_flag ?m0 = Running" and e0: "render_err ?m0 = None"
    by (simp_all add: NewModel_def)
  have nf: "\<And>e rest. evs \<noteq> Fail e # rest"
    using assms by (auto simp: Start_def)
  show ?thesis
  proof (cases "initTemplate env (conf ?m0)")
    case (Inl terr)
    show ?thesis
    proof (cases terr)
      case (ParseError err)
      with Inl assms nf have "m = ?m0\<lparr>render_err := Some err\<rparr>"
        by (auto simp: Start_def split: list.splits Event.splits)
      with r0 show ?thesis by simp
    next
      case FuncsPanic
      with Inl assms nf show ?thesis
        by (auto simp: Start_def split: list.splits Event.splits)
    qed
  next
    case (Inr t)
    show ?thesis
    proof (cases "View env t ?m0")
      case (Inl err)
      with Inr assms nf have "m = ?m0\<lparr>render_err := Some err\<rparr>"
        by (auto simp: Start_def split: list.splits Event.splits)
      with r0 show ?thesis by simp
    next
      case shown: (Inr shown)
      obtain r o' where ro: "run_loop env t ?m0 evs = (r, o')"
        by (cases "run_loop env t ?m0 evs")
      with Inr shown assms nf have "r = Inr m"
        by (auto simp: Start_def simp del: run_loop.simps split: list.splits Event.splits)
      with run_loop_Inr [OF e0] ro show ?thesis by blast
    qed
  qed
qed

lemma Start_Submitted:
  "Start env (NewModel c) evs = (Inr m, out) \<Longrightarrow> term_flag m = Submitted \<Longrightarrow>
     Model_Value m = Inr (coercion (cur_value m))"
  using Start_Inr [of env c evs m out] by (auto simp: Model_Value_def)

lemma run_loop_writer:
  "(w, s) \<in> set (snd (run_loop env t m evs)) \<Longrightarrow> w = Output (conf m)"
proof (induction env t m evs rule: run_loop.induct)
  case (3 env t m x rest)
  then show ?case
    by (auto simp: Let_def case_prod_beta simp del: Update.simps split: if_splits sum.splits)
qed simp_all

lemma Start_writer:
  "(w, s) \<in> set (snd (Start env m evs)) \<Longrightarrow> w = Output (conf m)"
proof -
  assume a: "(w, s) \<in> set (snd (Start env m evs))"
  have "snd (Start env m evs) = [] \<or>
        (\<exists>t shown. snd (Start env m evs) =
           (Output (conf m), shown) # snd (run_loop env t m evs))"
    by (auto simp: Start_def case_prod_beta simp del: run_loop.simps
        split: list.splits Event.splits sum.splits TmplErr.splits)
  with a show ?thesis
    by (auto dest: run_loop_writer)
qed

section \<open>RunPrompt after the loop\<close>

lemma RunPrompt_after_loop:
  assumes "initConfirmationTemplate env c = Inr tmpl"
    and "Start env (NewModel c) evs = (Inr m, out)"
    and "Model_Value m = Inr v"
  shows "RunPrompt env c evs =
     (if ConfirmationTemplate c = [] then (Return v None, out)
      else (case tmpl of
              None \<Rightarrow> (Panic, out)
            | Some t \<Rightarrow>
                (case t (confirmation_data v m) of
                   (buffer, Some err) \<Rightarrow> (Return v (Some (ExecTemplateErr err)), out)
                 | (buffer, None) \<Rightarrow>
                     (Return v (map_option WriteErr
                                  (snd (Fprint env OsStdout (Wrap env buffer (width m))))),
                      out @ [(OsStdout,
                              take (fst (Fprint env OsStdout (Wrap env buffer (width m))))
                                   (Wrap env buffer (width m)))]))))"
  using assms
  by (simp add: RunPrompt_def Let_def case_prod_beta split: option.splits prod.splits)

lemma RunPrompt_value_error:
  assumes "initConfirmationTemplate env c = Inr tmpl"
    and "Start env (NewModel c) evs = (Inr m, out)"
    and "Model_Value m = Inl err"
  shows "RunPrompt env c evs = (Return False (Some (ReadValueErr err)), out)"
  using assms by (simp add: RunPrompt_def)

lemma init_Some_nonempty:
  "initConfirmationTemplate env c = Inr (Some t) \<Longrightarrow> ConfirmationTemplate c \<noteq> []"
  by (auto simp: initConfirmationTemplate_def split: if_splits)

lemma init_None_empty:
  "initConfirmationTemplate env c = Inr None \<Longrightarrow> ConfirmationTemplate c = []"
  by (auto simp: initConfirmationTemplate_def split: if_splits sum.splits)

lemma init_empty:
  "initConfirmationTemplate env c = Inr tmpl \<Longrightarrow> ConfirmationTemplate c = [] \<Longrightarrow> tmpl = None"
  by (simp add: initConfirmationTemplate_def)

lemma init_nonempty:
  "initConfirmationTemplate env c = Inr tmpl \<Longrightarrow> ConfirmationTemplate c \<noteq> [] \<Longrightarrow>
     \<exists>t. tmpl = Some t"
  by (auto simp: initConfirmationTemplate_def split: sum.splits if_splits)

lemma loop_until_quit:
  assumes "initTemplate env c = Inr t"
    and "renders_along env t (NewModel c) pre"
    and "\<forall>x\<in>set pre. \<not> quits (KeyMap c) x"
    and "quits (KeyMap c) x"
  shows "fst (Start env (NewModel c) (map Deliver pre @ Deliver x # rest)) =
           Inr (Update (foldl Update (NewModel c) pre) x)"
proof -
  let ?m = "foldl Update (NewModel c) pre"
  have r0: "term_flag (NewModel c) = Running" and c0: "conf (NewModel c) = c"
    by (simp_all add: NewModel_def)
  have r: "term_flag ?m = Running"
    using foldl_Update_Running [OF r0] assms(3) c0 by simp
  have i: "initTemplate env (conf (NewModel c)) = Inr t"
    using assms(1) c0 by simp
  have "fst (Start env (NewModel c) (map Deliver pre @ Deliver x # rest)) =
        fst (run_loop env t (NewModel c) (map Deliver pre @ Deliver x # rest))"
    by (rule fst_Start [OF i renders_along_first [OF assms(2)] refl])
  also have "\<dots> = fst (run_loop env t ?m (Deliver x # rest))"
    using run_loop_prefix [OF r0 _ assms(2)] assms(3) c0 by simp
  also have "\<dots> = Inr (Update ?m x)"
    using run_loop_quit [OF r] assms(4) c0 by simp
  finally show ?thesis .
qed

lemma Update_Submit:
  "action_of (KeyMap (conf m)) k = Some Submit \<Longrightarrow>
     Update m (KeyMsg k) = m\<lparr>term_flag := Submitted\<rparr>"
  by simp

lemma Update_Abort:
  "action_of (KeyMap (conf m)) k = Some Abort \<Longrightarrow>
     Update m (KeyMsg k) = m\<lparr>term_flag := Aborted\<rparr>"
  by simp

lemma coercion_values:
  "coercion Yes" "\<not> coercion No" "\<not> coercion Undecided"
  by (simp_all add: coercion_def Yes_def No_def Undecided_def yes_addr_def no_addr_def)

lemma foldl_Update_render_err [simp]: "render_err (foldl Update m pre) = render_err m"
  by (induction pre arbitrary: m) simp_all

section \<open>Runs of the concrete environment\<close>

lemma demo_parse_live: "demo_parse scope DefaultTemplate = Inr demo_live_tmpl"
  by (simp add: demo_parse_def DefaultTemplate_def nl_def tab_def)

lemma demo_parse_confirmed: "demo_parse scope DefaultConfirmationTemplate = Inr demo_tmpl"
  by (simp add: demo_parse_def DefaultTemplate_def DefaultConfirmationTemplate_def nl_def tab_def)

lemma DefaultTemplate_nonempty: "DefaultTemplate \<noteq> []"
  by (simp add: DefaultTemplate_def nl_def)

lemma demo_initTemplate:
  "Template c = DefaultTemplate \<Longrightarrow> initTemplate demo_env c = Inr demo_live_tmpl"
  "Template c = DefaultTemplate \<Longrightarrow> initTemplate closed_stdout_env c = Inr demo_live_tmpl"
  by (simp_all add: initTemplate_def demo_env_def closed_stdout_env_def demo_parse_live
      DefaultTemplate_nonempty)

lemma demo_View:
  "View demo_env demo_live_tmpl m =
     Inr (if term_flag m \<noteq> Running then []
          else if cur_value m = Yes then ''[x] yes [ ] no''
          else if cur_value m = No then ''[ ] yes [x] no''
          else ''[ ] yes [ ] no'')"
  "View closed_stdout_env demo_live_tmpl m =
     Inr (if term_flag m \<noteq> Running then []
          else if cur_value m = Yes then ''[x] yes [ ] no''
          else if cur_value m = No then ''[ ] yes [x] no''
          else ''[ ] yes [ ] no'')"
  by (simp_all add: View_def live_data_def demo_live_tmpl_def demo_env_def closed_stdout_env_def)

lemma demo_conf_Template [simp]:
  "Template demo_conf = DefaultTemplate"
  "ConfirmationTemplate demo_conf = DefaultConfirmationTemplate"
  "KeyMap demo_conf = NewDefaultKeyMap"
  "Output demo_conf = OsStdout"
  "DefaultValue demo_conf = Undecided"
  "Prompt demo_conf = ''Continue?''"
  "ExtendedTemplateScope demo_conf = Map.empty"
  by (simp_all add: demo_conf_def New_def)

lemma demo_keys:
  "action_of NewDefaultKeyMap ''y'' = Some SelectYes"
  "action_of NewDefaultKeyMap ''n'' = Some SelectNo"
  "action_of NewDefaultKeyMap ''tab'' = Some Toggle"
  "action_of NewDefaultKeyMap ''enter'' = Some Submit"
  "action_of NewDefaultKeyMap ''esc'' = Some Abort"
  by (simp_all add: action_of_def)

lemma values_distinct:
  "Yes \<noteq> No" "No \<noteq> Yes" "Yes \<noteq> Undecided" "No \<noteq> Undecided"
  "Undecided \<noteq> Yes" "Undecided \<noteq> No"
  by (simp_all add: Yes_def No_def Undecided_def yes_addr_def no_addr_def)

lemma demo_start_yes:
  assumes "Template c = DefaultTemplate" and "KeyMap c = NewDefaultKeyMap"
    and "DefaultValue c = Undecided"
  shows "Start demo_env (NewModel c) [Deliver (KeyMsg ''y''), Deliver (KeyMsg ''enter'')] =
     (Inr ((NewModel c)\<lparr>cur_value := Yes, term_flag := Submitted\<rparr>),
      [(Output c, ''[ ] yes [ ] no''), (Output c, ''[x] yes [ ] no''), (Output c, [])])"
    and "Start closed_stdout_env (NewModel c)
           [Deliver (KeyMsg ''y''), Deliver (KeyMsg ''enter'')] =
     (Inr ((NewModel c)\<lparr>cur_value := Yes, term_flag := Submitted\<rparr>),
      [(Output c, ''[ ] yes [ ] no''), (Output c, ''[x] yes [ ] no''), (Output c, [])])"
  using assms
  by (simp_all add: Start_def NewModel_def demo_initTemplate demo_View demo_keys
      values_distinct Let_def)

lemma demo_start_fail_run:
  "Start demo_env (NewModel (demo_conf\<lparr>ConfirmationTemplate := ''{{ fail }}''\<rparr>))
     [Deliver (KeyMsg ''n''), Deliver (KeyMsg ''tab''), Deliver (KeyMsg ''enter'')] =
   (Inr ((NewModel (demo_conf\<lparr>ConfirmationTemplate := ''{{ fail }}''\<rparr>))
           \<lparr>cur_value := Yes, term_flag := Submitted\<rparr>),
    [(OsStdout, ''[ ] yes [ ] no''), (OsStdout, ''[ ] yes [x] no''),
     (OsStdout, ''[x] yes [ ] no''), (OsStdout, [])])"
  by (simp add: Start_def NewModel_def demo_initTemplate demo_View demo_keys
      values_distinct Let_def toggle_def)

lemma demo_init_fail:
  "initConfirmationTemplate demo_env (demo_conf\<lparr>ConfirmationTemplate := ''{{ fail }}''\<rparr>) =
     Inr (Some failing_tmpl)"
  by (simp add: initConfirmationTemplate_def demo_env_def demo_parse_def)

lemma demo_init:
  "initConfirmationTemplate demo_env demo_conf = Inr (Some demo_tmpl)"
  "initConfirmationTemplate closed_stdout_env demo_conf = Inr (Some demo_tmpl)"
  "initConfirmationTemplate demo_env (demo_conf\<lparr>Output := w\<rparr>) = Inr (Some demo_tmpl)"
  by (simp_all add: initConfirmationTemplate_def demo_env_def closed_stdout_env_def
      demo_parse_confirmed)
     (simp_all add: DefaultConfirmationTemplate_def nl_def)

lemma demo_exec:
  "Prompt (conf m) = ''Continue?'' \<Longrightarrow>
     demo_tmpl (confirmation_data True m) = (''Continue? true'', None)"
  by (simp add: demo_tmpl_def confirmation_data_def Sprintf_v_def)

section \<open>Claims about RunPrompt\<close>

text \<open>
  C6. If the confirmed template fails to parse (\<^verbatim>\<open>tmpl.Funcs\<close> accepted the function
  map and \<^verbatim>\<open>tmpl.Parse\<close> returned an error), \<^verbatim>\<open>RunPrompt\<close> returns false and the
  wrapped parse error whatever the terminal session would have delivered: the event loop
  is never started and nothing is written to any stream.
\<close>

theorem RunPrompt_parse_error:
  assumes "ConfirmationTemplate c \<noteq> []"
    and "Funcs env (ExtendedTemplateScope c)"
    and "Parse env (ExtendedTemplateScope c) (ConfirmationTemplate c) = Inl err"
  shows "RunPrompt env c evs = (Return False (Some (InitTemplateErr err)), [])"
  using assms by (simp add: RunPrompt_def initConfirmationTemplate_def)

theorem RunPrompt_parse_error_witness:
  "ConfirmationTemplate (demo_conf\<lparr>ConfirmationTemplate := ''{{''\<rparr>) \<noteq> [] \<and>
   Funcs demo_env (ExtendedTemplateScope (demo_conf\<lparr>ConfirmationTemplate := ''{{''\<rparr>)) \<and>
   Parse demo_env (ExtendedTemplateScope (demo_conf\<lparr>ConfirmationTemplate := ''{{''\<rparr>))
     (ConfirmationTemplate (demo_conf\<lparr>ConfirmationTemplate := ''{{''\<rparr>)) = Inl ''unclosed action'' \<and>
   RunPrompt demo_env (demo_conf\<lparr>ConfirmationTemplate := ''{{''\<rparr>)
     [Deliver (KeyMsg ''y''), Deliver (KeyMsg ''enter'')] =
     (Return False (Some (InitTemplateErr ''unclosed action'')), [])"
proof -
  let ?c = "demo_conf\<lparr>ConfirmationTemplate := ''{{''\<rparr>"
  have a: "ConfirmationTemplate ?c \<noteq> []" by simp
  have f: "Funcs demo_env (ExtendedTemplateScope ?c)"
    by (simp add: demo_env_def)
  have b: "Parse demo_env (ExtendedTemplateScope ?c) (ConfirmationTemplate ?c) = Inl ''unclosed action''"
    by (simp add: demo_env_def demo_parse_def)
  show ?thesis
    using a f b RunPrompt_parse_error [OF a f b] by simp
qed

text \<open>
  C7. With an empty confirmed template, a run that ends in \<open>Submitted\<close> returns the
  coerced decision and a nil error, and the writes of the whole run are exactly the writes
  of the event loop: the live views, all of them on the configured output.
\<close>
theorem RunPrompt_empty_template:
  assumes "ConfirmationTemplate c = []"
    and "Start env (NewModel c) evs = (Inr m, out)"
    and "term_flag m = Submitted"
  shows "RunPrompt env c evs = (Return (coercion (cur_value m)) None, out) \<and>
         (\<forall>(w, s) \<in> set (snd (RunPrompt env c evs)). w = Output c)"
proof -
  have i: "initConfirmationTemplate env c = Inr None"
    using assms(1) by (simp add: initConfirmationTemplate_def)
  have r: "RunPrompt env c evs = (Return (coercion (cur_value m)) None, out)"
    using RunPrompt_after_loop [OF i assms(2) Start_Submitted [OF assms(2,3)]] assms(1)
    by simp
  have "\<forall>(w, s) \<in> set out. w = Output c"
    using Start_writer [of _ _ env "NewModel c" evs] assms(2)
    by (auto simp: NewModel_def)
  with r show ?thesis by simp
qed

theorem RunPrompt_empty_template_witness:
  "ConfirmationTemplate (demo_conf\<lparr>ConfirmationTemplate := [], Output := OtherWriter 1\<rparr>) = [] \<and>
   RunPrompt demo_env (demo_conf\<lparr>ConfirmationTemplate := [], Output := OtherWriter 1\<rparr>)
     [Deliver (KeyMsg ''y''), Deliver (KeyMsg ''enter'')] =
     (Return True None,
      [(OtherWriter 1, ''[ ] yes [ ] no''), (OtherWriter 1, ''[x] yes [ ] no''),
       (OtherWriter 1, [])])"
proof -
  let ?c = "demo_conf\<lparr>ConfirmationTemplate := [], Output := OtherWriter 1\<rparr>"
  let ?evs = "[Deliver (KeyMsg ''y''), Deliver (KeyMsg ''enter'')]"
  let ?m = "(NewModel ?c)\<lparr>cur_value := Yes, term_flag := Submitted\<rparr>"
  let ?out = "[(OtherWriter 1, ''[ ] yes [ ] no''), (OtherWriter 1, ''[x] yes [ ] no''),
       (OtherWriter 1, [])]"
  have a: "ConfirmationTemplate ?c = []" by simp
  have b: "Start demo_env (NewModel ?c) ?evs = (Inr ?m, ?out)"
    using demo_start_yes(1) [of ?c] by simp
  have c: "term_flag ?m = Submitted" by simp
  have d: "coercion (cur_value ?m)" by (simp add: coercion_def)
  show ?thesis
    using a RunPrompt_empty_template [OF a b c] d by simp
qed

text \<open>
  C10. The confirmed template is executed into a buffer. When the execution returns an
  error, the writes of the run are those of the event loop alone, whatever the buffer
  already holds; only a successful execution appends one write of the wrapped buffer.
\<close>
theorem RunPrompt_render_buffered:
  assumes "initConfirmationTemplate env c = Inr (Some t)"
    and "Start env (NewModel c) evs = (Inr m, out)"
    and "Model_Value m = Inr v"
  shows "snd (RunPrompt env c evs) =
     (case t (confirmation_data v m) of
        (buffer, Some err) \<Rightarrow> out
      | (buffer, None) \<Rightarrow>
          out @ [(OsStdout,
                  take (fst (Fprint env OsStdout (Wrap env buffer (width m))))
                       (Wrap env buffer (width m)))])"
  using RunPrompt_after_loop [OF assms] init_Some_nonempty [OF assms(1)]
  by (simp split: prod.splits option.splits)

theorem RunPrompt_render_buffered_witness:
  "failing_tmpl (confirmation_data True
       ((NewModel (demo_conf\<lparr>ConfirmationTemplate := ''{{ fail }}''\<rparr>))
           \<lparr>cur_value := Yes, term_flag := Submitted\<rparr>)) =
     (''partial'', Some ''error calling fail'') \<and>
   snd (RunPrompt demo_env (demo_conf\<lparr>ConfirmationTemplate := ''{{ fail }}''\<rparr>)
          [Deliver (KeyMsg ''n''), Deliver (KeyMsg ''tab''), Deliver (KeyMsg ''enter'')]) =
     [(OsStdout, ''[ ] yes [ ] no''), (OsStdout, ''[ ] yes [x] no''),
      (OsStdout, ''[x] yes [ ] no''), (OsStdout, [])]"
proof -
  let ?c = "demo_conf\<lparr>ConfirmationTemplate := ''{{ fail }}''\<rparr>"
  let ?m = "(NewModel ?c)\<lparr>cur_value := Yes, term_flag := Submitted\<rparr>"
  have v: "Model_Value ?m = Inr True"
    by (simp add: Model_Value_def coercion_def NewModel_def)
  show ?thesis
    using RunPrompt_render_buffered [OF demo_init_fail demo_start_fail_run v]
    by (simp add: failing_tmpl_def)
qed

text \<open>
  C4. When the confirmed template parses and its execution fails after a submitted
  decision, \<^verbatim>\<open>RunPrompt\<close> returns the decided value together with the wrapped
  execution error.
\<close>
theorem RunPrompt_exec_error_keeps_decision:
  assumes "initConfirmationTemplate env c = Inr (Some t)"
    and "Start env (NewModel c) evs = (Inr m, out)"
    and "term_flag m = Submitted"
    and "t (confirmation_data (coercion (cur_value m)) m) = (buffer, Some err)"
  shows "fst (RunPrompt env c evs) =
           Return (coercion (cur_value m)) (Some (ExecTemplateErr err))"
  using RunPrompt_after_loop [OF assms(1,2) Start_Submitted [OF assms(2,3)]]
    init_Some_nonempty [OF assms(1)] assms(4)
  by simp

theorem RunPrompt_exec_error_keeps_decision_witness:
  "fst (RunPrompt demo_env (demo_conf\<lparr>ConfirmationTemplate := ''{{ fail }}''\<rparr>)
          [Deliver (KeyMsg ''n''), Deliver (KeyMsg ''tab''), Deliver (KeyMsg ''enter'')]) =
     Return True (Some (ExecTemplateErr ''error calling fail''))"
proof -
  let ?c = "demo_conf\<lparr>ConfirmationTemplate := ''{{ fail }}''\<rparr>"
  let ?m = "(NewModel ?c)\<lparr>cur_value := Yes, term_flag := Submitted\<rparr>"
  have s: "term_flag ?m = Submitted" by simp
  have x: "failing_tmpl (confirmation_data (coercion (cur_value ?m)) ?m) =
             (''partial'', Some ''error calling fail'')"
    by (simp add: failing_tmpl_def)
  show ?thesis
    using RunPrompt_exec_error_keeps_decision [OF demo_init_fail demo_start_fail_run s x]
    by (simp add: coercion_def)
qed

text \<open>
  C2. Whatever the messages before it, when the live view renders up to then and the
  first key that ends the loop is a Submit key, \<^verbatim>\<open>RunPrompt\<close> returns the coercion of
  the value held at that moment: true for Yes, false for No and for Undecided. Reading
  the value reports no error; the only errors left are those of rendering the confirmed
  template, and none with an empty template.
\<close>
theorem RunPrompt_submit_returns_coercion:
  assumes "initConfirmationTemplate env c = Inr tmpl"
    and "initTemplate env c = Inr live"
    and "renders_along env live (NewModel c) pre"
    and "\<forall>x\<in>set pre. \<not> quits (KeyMap c) x"
    and "action_of (KeyMap c) k = Some Submit"
    and "v = cur_value (foldl Update (NewModel c) pre)"
  shows "(\<exists>e. fst (RunPrompt env c (map Deliver pre @ Deliver (KeyMsg k) # rest)) =
               Return (coercion v) e \<and>
             (e = None \<or> (\<exists>s. e = Some (ExecTemplateErr s)) \<or> (\<exists>s. e = Some (WriteErr s))) \<and>
             (ConfirmationTemplate c = [] \<longrightarrow> e = None)) \<and>
         coercion Yes = True \<and> coercion No = False \<and> coercion Undecided = False"
proof -
  let ?evs = "map Deliver pre @ Deliver (KeyMsg k) # rest"
  let ?before = "foldl Update (NewModel c) pre"
  let ?m = "?before\<lparr>term_flag := Submitted\<rparr>"
  have q: "quits (KeyMap c) (KeyMsg k)"
    using assms(5) by (simp add: quits_def)
  have u: "Update ?before (KeyMsg k) = ?m"
    using assms(5) by (simp add: NewModel_def)
  have "fst (Start env (NewModel c) ?evs) = Inr (Update ?before (KeyMsg k))"
    by (rule loop_until_quit [OF assms(2,3,4) q])
  then have "fst (Start env (NewModel c) ?evs) = Inr ?m"
    by (simp only: u)
  then obtain out where st: "Start env (NewModel c) ?evs = (Inr ?m, out)"
    by (cases "Start env (NewModel c) ?evs") (simp del: Update.simps)
  have "render_err ?before = None"
    by (simp add: NewModel_def)
  then have mv: "Model_Value ?m = Inr (coercion v)"
    using assms(6) by (simp add: Model_Value_def)
  have run: "\<exists>e. fst (RunPrompt env c ?evs) = Return (coercion v) e \<and>
             (e = None \<or> (\<exists>s. e = Some (ExecTemplateErr s)) \<or> (\<exists>s. e = Some (WriteErr s))) \<and>
             (ConfirmationTemplate c = [] \<longrightarrow> e = None)"
  proof (cases tmpl)
    case None
    then have "ConfirmationTemplate c = []"
      using assms(1) init_None_empty by blast
    then show ?thesis
      using RunPrompt_after_loop [OF assms(1) st mv] by simp
  next
    case (Some t)
    then have ne: "ConfirmationTemplate c \<noteq> []"
      using assms(1) init_Some_nonempty by blast
    obtain buffer err where x: "t (confirmation_data (coercion v) ?m) = (buffer, err)"
      by (cases "t (confirmation_data (coercion v) ?m)")
    show ?thesis
      using RunPrompt_after_loop [OF assms(1) st mv] Some ne x
      by (cases err; cases "snd (Fprint env OsStdout (Wrap env buffer (width ?m)))") simp_all
  qed
  have "coercion Yes = True \<and> coercion No = False \<and> coercion Undecided = False"
    using coercion_values by simp
  with run show ?thesis by blast
qed

theorem RunPrompt_submit_returns_coercion_witness:
  "initTemplate demo_env demo_conf = Inr demo_live_tmpl \<and>
   renders_along demo_env demo_live_tmpl (NewModel demo_conf) [KeyMsg ''tab'', WindowSizeMsg 80] \<and>
   \<not> quits (KeyMap demo_conf) (KeyMsg ''tab'') \<and>
   \<not> quits (KeyMap demo_conf) (WindowSizeMsg 80) \<and>
   action_of (KeyMap demo_conf) ''enter'' = Some Submit \<and>
   Undecided = cur_value (foldl Update (NewModel demo_conf) [KeyMsg ''tab'', WindowSizeMsg 80]) \<and>
   (\<exists>e. fst (RunPrompt demo_env demo_conf
               (map Deliver [KeyMsg ''tab'', WindowSizeMsg 80] @ Deliver (KeyMsg ''enter'') # [])) =
          Return (coercion Undecided) e \<and>
        (e = None \<or> (\<exists>s. e = Some (ExecTemplateErr s)) \<or> (\<exists>s. e = Some (WriteErr s))) \<and>
        (ConfirmationTemplate demo_conf = [] \<longrightarrow> e = None)) \<and>
   coercion Yes = True \<and> coercion No = False \<and> coercion Undecided = False"
proof -
  have i: "initTemplate demo_env demo_conf = Inr demo_live_tmpl"
    by (simp add: demo_initTemplate)
  have r: "renders_along demo_env demo_live_tmpl (NewModel demo_conf)
             [KeyMsg ''tab'', WindowSizeMsg 80]"
    by (simp add: renders_def demo_View)
  have a: "\<forall>x\<in>set [KeyMsg ''tab'', WindowSizeMsg 80]. \<not> quits (KeyMap demo_conf) x"
    by (simp add: quits_def demo_keys)
  have b: "action_of (KeyMap demo_conf) ''enter'' = Some Submit"
    by (simp add: demo_keys)
  have c: "Undecided = cur_value (foldl Update (NewModel demo_conf) [KeyMsg ''tab'', WindowSizeMsg 80])"
    by (simp add: demo_keys NewModel_def toggle_def values_distinct)
  have q: "\<not> quits (KeyMap demo_conf) (KeyMsg ''tab'')"
    "\<not> quits (KeyMap demo_conf) (WindowSizeMsg 80)"
    using a by simp_all
  show ?thesis
    by (rule conjI [OF i conjI [OF r conjI [OF q(1) conjI [OF q(2) conjI [OF b conjI [OF c
          RunPrompt_submit_returns_coercion [OF demo_init(1) i r a b c, of "[]"]]]]]]])
qed

text \<open>
  C5. Whatever the messages before it, and so whatever the value held, when the live
  view renders up to then and the first key that ends the loop is an Abort key, the
  model ends in \<open>Aborted\<close> with its value unchanged, and \<^verbatim>\<open>RunPrompt\<close> returns false
  with the cancellation error.
\<close>
theorem RunPrompt_abort:
  assumes "initConfirmationTemplate env c = Inr tmpl"
    and "initTemplate env c = Inr live"
    and "renders_along env live (NewModel c) pre"
    and "\<forall>x\<in>set pre. \<not> quits (KeyMap c) x"
    and "action_of (KeyMap c) k = Some Abort"
  shows "term_flag (foldl Update (NewModel c) (pre @ [KeyMsg k])) = Aborted \<and>
         cur_value (foldl Update (NewModel c) (pre @ [KeyMsg k])) =
           cur_value (foldl Update (NewModel c) pre) \<and>
         fst (RunPrompt env c (map Deliver pre @ Deliver (KeyMsg k) # rest)) =
           Return False (Some (ReadValueErr ErrAborted))"
proof -
  let ?evs = "map Deliver pre @ Deliver (KeyMsg k) # rest"
  let ?before = "foldl Update (NewModel c) pre"
  let ?m = "?before\<lparr>term_flag := Aborted\<rparr>"
  have q: "quits (KeyMap c) (KeyMsg k)"
    using assms(5) by (simp add: quits_def)
  have u: "Update ?before (KeyMsg k) = ?m"
    using assms(5) by (simp add: NewModel_def)
  have "fst (Start env (NewModel c) ?evs) = Inr (Update ?before (KeyMsg k))"
    by (rule loop_until_quit [OF assms(2,3,4) q])
  then have "fst (Start env (NewModel c) ?evs) = Inr ?m"
    by (simp only: u)
  then obtain out where st: "Start env (NewModel c) ?evs = (Inr ?m, out)"
    by (cases "Start env (NewModel c) ?evs") (simp del: Update.simps)
  have "render_err ?before = None"
    by (simp add: NewModel_def)
  then have mv: "Model_Value ?m = Inl ErrAborted"
    by (simp add: Model_Value_def)
  have "RunPrompt env c ?evs = (Return False (Some (ReadValueErr ErrAborted)), out)"
    by (rule RunPrompt_value_error [OF assms(1) st mv])
  with u show ?thesis by simp
qed

theorem RunPrompt_abort_witness:
  "initTemplate demo_env demo_conf = Inr demo_live_tmpl \<and>
   renders_along demo_env demo_live_tmpl (NewModel demo_conf) [KeyMsg ''y''] \<and>
   \<not> quits (KeyMap demo_conf) (KeyMsg ''y'') \<and>
   action_of (KeyMap demo_conf) ''esc'' = Some Abort \<and>
   cur_value (foldl Update (NewModel demo_conf) [KeyMsg ''y'']) = Yes \<and>
   term_flag (foldl Update (NewModel demo_conf) ([KeyMsg ''y''] @ [KeyMsg ''esc''])) = Aborted \<and>
   fst (RunPrompt demo_env demo_conf
          (map Deliver [KeyMsg ''y''] @ Deliver (KeyMsg ''esc'') # [Deliver (KeyMsg ''enter'')])) =
     Return False (Some (ReadValueErr ErrAborted))"
proof -
  have i: "initTemplate demo_env demo_conf = Inr demo_live_tmpl"
    by (simp add: demo_initTemplate)
  have r: "renders_along demo_env demo_live_tmpl (NewModel demo_conf) [KeyMsg ''y'']"
    by (simp add: renders_def demo_View)
  have a: "\<forall>x\<in>set [KeyMsg ''y'']. \<not> quits (KeyMap demo_conf) x"
    by (simp add: quits_def demo_keys)
  have b: "action_of (KeyMap demo_conf) ''esc'' = Some Abort"
    by (simp add: demo_keys)
  have c: "cur_value (foldl Update (NewModel demo_conf) [KeyMsg ''y'']) = Yes"
    by (simp add: demo_keys NewModel_def)
  show ?thesis
    using i r a b c
      RunPrompt_abort [OF demo_init(1) i r a b, of "[Deliver (KeyMsg ''enter'')]"]
    by simp
qed

section \<open>Claims about the controller and the values\<close>

text \<open>
  C9. On the controller of the spec, a key that resolves to Toggle replaces the value by
  its toggle and leaves a running model running; the toggle of Undecided is Undecided,
  and toggling Yes or No twice gives the value back.
\<close>
theorem Toggle_transition:
  assumes "action_of (KeyMap (conf m)) k = Some Toggle"
    and "term_flag m = Running"
  shows "toggle Undecided = Undecided \<and>
         toggle (toggle Yes) = Yes \<and>
         toggle (toggle No) = No \<and>
         Update m (KeyMsg k) = m\<lparr>cur_value := toggle (cur_value m)\<rparr> \<and>
         term_flag (Update m (KeyMsg k)) = Running"
  using assms
  by (simp add: toggle_def Yes_def No_def Undecided_def yes_addr_def no_addr_def)

theorem Toggle_transition_witness:
  "action_of (KeyMap (conf (NewModel demo_conf))) ''tab'' = Some Toggle \<and>
   term_flag (NewModel demo_conf) = Running \<and>
   toggle Undecided = Undecided \<and>
   toggle (toggle Yes) = Yes \<and>
   toggle (toggle No) = No \<and>
   Update (NewModel demo_conf) (KeyMsg ''tab'') =
     (NewModel demo_conf)\<lparr>cur_value := toggle (cur_value (NewModel demo_conf))\<rparr> \<and>
   term_flag (Update (NewModel demo_conf) (KeyMsg ''tab'')) = Running"
proof -
  have a: "action_of (KeyMap (conf (NewModel demo_conf))) ''tab'' = Some Toggle"
    by (simp add: demo_keys NewModel_def)
  have b: "term_flag (NewModel demo_conf) = Running"
    by (simp add: NewModel_def)
  show ?thesis
    by (rule conjI [OF a conjI [OF b Toggle_transition [OF a b]]])
qed

lemma default_flags_data:
  "default_flags (confirmation_data v m) =
     [DefaultValue (conf m) = Yes, DefaultValue (conf m) = No,
      DefaultValue (conf m) = Undecided]"
  by (simp add: default_flags_def confirmation_data_def)

text \<open>
  C8, as stated, does not hold for every Value: a pointer to a bool cell of the caller is
  neither \<^verbatim>\<open>Yes\<close> nor \<^verbatim>\<open>No\<close> nor nil, so with such a default value the three booleans
  DefaultYes, DefaultNo and DefaultUndecided of the template data are all false.
\<close>
theorem default_flags_counterexample:
  "\<not> exactly_one (default_flags (confirmation_data False
        (NewModel (demo_conf\<lparr>DefaultValue := Some 2\<rparr>))))"
  by (simp add: default_flags_data exactly_one_def NewModel_def
      Yes_def No_def Undecided_def yes_addr_def no_addr_def)

text \<open>
  C8, amended. Exactly one of DefaultYes, DefaultNo, DefaultUndecided is true if and only
  if the default value is one of the three values of the package, \<^verbatim>\<open>Yes\<close>, \<^verbatim>\<open>No\<close>,
  \<^verbatim>\<open>Undecided\<close>.
\<close>
theorem default_flags_exactly_one:
  "exactly_one (default_flags (confirmation_data v m)) \<longleftrightarrow>
     DefaultValue (conf m) = Yes \<or> DefaultValue (conf m) = No \<or>
     DefaultValue (conf m) = Undecided"
  by (auto simp: default_flags_data exactly_one_def
      Yes_def No_def Undecided_def yes_addr_def no_addr_def)

theorem default_flags_exactly_one_witness:
  "exactly_one (default_flags (confirmation_data True
      (NewModel (demo_conf\<lparr>DefaultValue := No\<rparr>))))"
  using default_flags_exactly_one [of True "NewModel (demo_conf\<lparr>DefaultValue := No\<rparr>)"]
  by (simp add: NewModel_def)

section \<open>The stream of the confirmed render\<close>

text \<open>
  C1. A run with the output set to a writer of the caller, a Yes key and a Submit key:
  the live views go to the configured output, and the confirmed text is written to the
  standard output of the process (\<^verbatim>\<open>fmt.Fprint(os.Stdout, ...)\<close>), not to the
  configured output.
\<close>
theorem RunPrompt_confirmed_render_on_stdout:
  "RunPrompt demo_env (demo_conf\<lparr>Output := OtherWriter 1\<rparr>)
     [Deliver (KeyMsg ''y''), Deliver (KeyMsg ''enter'')] =
   (Return True None,
    [(OtherWriter 1, ''[ ] yes [ ] no''), (OtherWriter 1, ''[x] yes [ ] no''),
     (OtherWriter 1, []), (OsStdout, ''Continue? true'')])"
proof -
  let ?c = "demo_conf\<lparr>Output := OtherWriter 1\<rparr>"
  let ?m = "(NewModel ?c)\<lparr>cur_value := Yes, term_flag := Submitted\<rparr>"
  have st: "Start demo_env (NewModel ?c) [Deliver (KeyMsg ''y''), Deliver (KeyMsg ''enter'')] =
     (Inr ?m,
      [(OtherWriter 1, ''[ ] yes [ ] no''), (OtherWriter 1, ''[x] yes [ ] no''),
       (OtherWriter 1, [])])"
    using demo_start_yes(1) [of ?c] by simp
  have mv: "Model_Value ?m = Inr True"
    by (simp add: Model_Value_def coercion_def NewModel_def)
  have ex: "demo_tmpl (confirmation_data True ?m) = (''Continue? true'', None)"
    by (rule demo_exec) (simp add: NewModel_def)
  have ne: "ConfirmationTemplate ?c \<noteq> []"
    by (simp add: DefaultConfirmationTemplate_def nl_def)
  show ?thesis
    using RunPrompt_after_loop [OF demo_init(3) st mv] ex ne
    by (simp add: demo_env_def)
qed

section \<open>When RunPrompt returns an error\<close>

lemma closed_stdout_exec:
  "executed closed_stdout_env demo_conf [Deliver (KeyMsg ''y''), Deliver (KeyMsg ''enter'')] =
     Some (''Continue? true'', None)"
proof -
  let ?m = "(NewModel demo_conf)\<lparr>cur_value := Yes, term_flag := Submitted\<rparr>"
  have st: "fst (Start closed_stdout_env (NewModel demo_conf)
                   [Deliver (KeyMsg ''y''), Deliver (KeyMsg ''enter'')]) = Inr ?m"
    using demo_start_yes(2) [of demo_conf] by simp
  have mv: "Model_Value ?m = Inr True"
    by (simp add: Model_Value_def coercion_def NewModel_def)
  have ex: "demo_tmpl (confirmation_data True ?m) = (''Continue? true'', None)"
    by (rule demo_exec) (simp add: NewModel_def)
  show ?thesis
    unfolding executed_def demo_init(2) st using mv ex by simp
qed

lemma closed_stdout_run:
  "RunPrompt closed_stdout_env demo_conf
          [Deliver (KeyMsg ''y''), Deliver (KeyMsg ''enter'')] =
     (Return True (Some (WriteErr ''file already closed'')),
      [(OsStdout, ''[ ] yes [ ] no''), (OsStdout, ''[x] yes [ ] no''), (OsStdout, []),
       (OsStdout, [])])"
proof -
  let ?m = "(NewModel demo_conf)\<lparr>cur_value := Yes, term_flag := Submitted\<rparr>"
  have st: "Start closed_stdout_env (NewModel demo_conf)
                   [Deliver (KeyMsg ''y''), Deliver (KeyMsg ''enter'')] =
     (Inr ?m, [(OsStdout, ''[ ] yes [ ] no''), (OsStdout, ''[x] yes [ ] no''), (OsStdout, [])])"
    using demo_start_yes(2) [of demo_conf] by simp
  have mv: "Model_Value ?m = Inr True"
    by (simp add: Model_Value_def coercion_def NewModel_def)
  have ex: "demo_tmpl (confirmation_data True ?m) = (''Continue? true'', None)"
    by (rule demo_exec) (simp add: NewModel_def)
  have ne: "ConfirmationTemplate demo_conf \<noteq> []"
    by (simp add: DefaultConfirmationTemplate_def nl_def)
  show ?thesis
    using RunPrompt_after_loop [OF demo_init(2) st mv] ex ne
    by (simp add: closed_stdout_env_def demo_env_def)
qed

lemma closed_stdout_end:
  "loop_end closed_stdout_env demo_conf [Deliver (KeyMsg ''y''), Deliver (KeyMsg ''enter'')] =
     Some (Inr ((NewModel demo_conf)\<lparr>cur_value := Yes, term_flag := Submitted\<rparr>))"
  unfolding loop_end_def demo_init(2)
  using demo_start_yes(2) [of demo_conf] by simp

text \<open>
  C3, as stated, does not hold: with the standard output closed, a submitted run whose
  templates parse and execute returns the error of the final write, although none of
  the four listed events occurred.
\<close>
theorem RunPrompt_error_counterexample:
  "err_of (fst (RunPrompt closed_stdout_env demo_conf
                  [Deliver (KeyMsg ''y''), Deliver (KeyMsg ''enter'')])) \<noteq> None \<and>
   \<not> (parse_failed closed_stdout_env demo_conf \<or>
       exec_failed closed_stdout_env demo_conf
         [Deliver (KeyMsg ''y''), Deliver (KeyMsg ''enter'')] \<or>
       loop_failed closed_stdout_env demo_conf
         [Deliver (KeyMsg ''y''), Deliver (KeyMsg ''enter'')] \<or>
       user_aborted closed_stdout_env demo_conf
         [Deliver (KeyMsg ''y''), Deliver (KeyMsg ''enter'')])"
  by (simp add: closed_stdout_run parse_failed_def exec_failed_def loop_failed_def
      user_aborted_def demo_init(2) closed_stdout_end closed_stdout_exec)

lemma live_parse_fail_start:
  "Start demo_env (NewModel (demo_conf\<lparr>Template := ''{{''\<rparr>))
     [Deliver (KeyMsg ''y''), Deliver (KeyMsg ''enter'')] =
   (Inr ((NewModel (demo_conf\<lparr>Template := ''{{''\<rparr>))\<lparr>render_err := Some ''unclosed action''\<rparr>),
    [])"
  by (simp add: Start_def initTemplate_def NewModel_def demo_env_def demo_parse_def)

lemma live_parse_fail_init:
  "initConfirmationTemplate demo_env (demo_conf\<lparr>Template := ''{{''\<rparr>) = Inr (Some demo_tmpl)"
  by (simp add: initConfirmationTemplate_def demo_env_def demo_parse_confirmed)
     (simp add: DefaultConfirmationTemplate_def nl_def)

lemma RunPrompt_Funcs_panic:
  "ConfirmationTemplate c \<noteq> [] \<Longrightarrow> \<not> Funcs env (ExtendedTemplateScope c) \<Longrightarrow>
     RunPrompt env c evs = (Panic, [])"
  by (simp add: RunPrompt_def initConfirmationTemplate_def)

lemma RunPrompt_waits_for_input:
  "RunPrompt demo_env demo_conf [Deliver (KeyMsg ''y'')] =
     (Blocked, [(OsStdout, ''[ ] yes [ ] no''), (OsStdout, ''[x] yes [ ] no'')])"
  unfolding RunPrompt_def demo_init(1)
  by (simp add: Start_def NewModel_def demo_initTemplate demo_View demo_keys
      values_distinct Let_def)

lemma live_exec_fail_run:
  "RunPrompt demo_env (demo_conf\<lparr>Template := ''{{ fail }}''\<rparr>)
     [Deliver (KeyMsg ''y''), Deliver (KeyMsg ''enter'')] =
     (Return False (Some (ReadValueErr (ErrRender ''error calling fail''))), [])"
  unfolding RunPrompt_def
  by (simp add: initConfirmationTemplate_def demo_parse_confirmed Start_def initTemplate_def
      NewModel_def demo_env_def demo_parse_def View_def failing_tmpl_def Model_Value_def
      DefaultConfirmationTemplate_def nl_def)

text \<open>
  C3, amended. The error of \<^verbatim>\<open>RunPrompt\<close> is non-nil if and only if the confirmed
  template failed to parse, or its execution failed, or the live template failed to
  parse or to execute, or the event loop failed, or the user aborted, or the write of
  the confirmed render failed. A run that panics or never returns gives no error, and
  none of these events occurred in it. A reading-value error other than the
  cancellation and the rendering failure cannot occur: a loop that renders only ends
  in Submitted or Aborted.
\<close>
theorem RunPrompt_error_iff:
  "err_of (fst (RunPrompt env c evs)) \<noteq> None \<longleftrightarrow>
      parse_failed env c \<or> exec_failed env c evs \<or> live_render_failed env c evs \<or>
      loop_failed env c evs \<or> user_aborted env c evs \<or> write_failed env c evs"
proof (cases "initConfirmationTemplate env c")
  case (Inl terr)
  then have "loop_end env c evs = None" and "executed env c evs = None"
    by (simp_all add: loop_end_def executed_def)
  then have no: "\<not> exec_failed env c evs" "\<not> live_render_failed env c evs"
    "\<not> loop_failed env c evs" "\<not> user_aborted env c evs" "\<not> write_failed env c evs"
    by (simp_all add: exec_failed_def live_render_failed_def loop_failed_def user_aborted_def
        write_failed_def)
  show ?thesis
    using Inl no by (cases terr) (simp_all add: RunPrompt_def parse_failed_def)
next
  case (Inr tmpl)
  then have np: "\<not> parse_failed env c"
    by (simp add: parse_failed_def)
  obtain r out where st: "Start env (NewModel c) evs = (r, out)"
    by (cases "Start env (NewModel c) evs")
  have le: "loop_end env c evs = Some r"
    using Inr st by (simp add: loop_end_def)
  show ?thesis
  proof (cases r)
    case (Inl stop)
    have "executed env c evs = None"
      using st Inl by (simp add: executed_def split: sum.splits option.splits)
    then have no: "\<not> exec_failed env c evs" "\<not> write_failed env c evs"
      by (simp_all add: exec_failed_def write_failed_def)
    show ?thesis
      using Inr st Inl le np no
      by (cases stop)
         (simp_all add: RunPrompt_def loop_failed_def live_render_failed_def user_aborted_def)
  next
    case r: (Inr m)
    note st' = st [unfolded r]
    have nl: "\<not> loop_failed env c evs"
      using le r by (simp add: loop_failed_def)
    have fw: "final_width env c evs = width m"
      using st r by (simp add: final_width_def)
    show ?thesis
    proof (cases "render_err m")
      case (Some e)
      then have mv: "Model_Value m = Inl (ErrRender e)"
        by (simp add: Model_Value_def)
      have "live_render_failed env c evs"
        using le r Some by (simp add: live_render_failed_def)
      then show ?thesis
        using RunPrompt_value_error [OF Inr st' mv] by simp
    next
      case None
      then have nr: "term_flag m \<noteq> Running"
        using Start_Inr [OF st'] by blast
      have nv: "\<not> live_render_failed env c evs"
        using le r None by (simp add: live_render_failed_def)
      show ?thesis
      proof (cases "term_flag m")
        case Running
        with nr show ?thesis by simp
      next
        case Aborted
        then have mv: "Model_Value m = Inl ErrAborted"
          using None by (simp add: Model_Value_def)
        have "user_aborted env c evs"
          using le r Aborted by (simp add: user_aborted_def)
        then show ?thesis
          using RunPrompt_value_error [OF Inr st' mv] by simp
      next
        case Submitted
        then have mv: "Model_Value m = Inr (coercion (cur_value m))"
          using None by (simp add: Model_Value_def)
        have na: "\<not> user_aborted env c evs"
          using le r Submitted by (simp add: user_aborted_def)
        note run = RunPrompt_after_loop [OF Inr st' mv]
        show ?thesis
        proof (cases "ConfirmationTemplate c = []")
          case True
          then have "tmpl = None"
            using Inr init_empty by blast
          then have "executed env c evs = None"
            using Inr by (simp add: executed_def)
          then show ?thesis
            using run True np nl na nv by (simp add: exec_failed_def write_failed_def)
        next
          case False
          then obtain t where t: "tmpl = Some t"
            using Inr init_nonempty by blast
          obtain buffer err where
            x: "t (confirmation_data (coercion (cur_value m)) m) = (buffer, err)"
            by (cases "t (confirmation_data (coercion (cur_value m)) m)")
          have ex: "executed env c evs = Some (buffer, err)"
            using Inr t st r mv x by (simp add: executed_def)
          show ?thesis
          proof (cases err)
            case None
            then show ?thesis
              using run False t x ex np nl na nv fw
              by (simp add: exec_failed_def write_failed_def)
          next
            case (Some e)
            then show ?thesis
              using run False t x ex np nl na nv
              by (simp add: exec_failed_def write_failed_def)
          qed
        qed
      qed
    qed
  qed
qed

theorem RunPrompt_error_iff_witness:
  "write_failed closed_stdout_env demo_conf
     [Deliver (KeyMsg ''y''), Deliver (KeyMsg ''enter'')] \<and>
   err_of (fst (RunPrompt closed_stdout_env demo_conf
                  [Deliver (KeyMsg ''y''), Deliver (KeyMsg ''enter'')])) \<noteq> None \<and>
   live_render_failed demo_env (demo_conf\<lparr>Template := ''{{''\<rparr>)
     [Deliver (KeyMsg ''y''), Deliver (KeyMsg ''enter'')] \<and>
   err_of (fst (RunPrompt demo_env (demo_conf\<lparr>Template := ''{{''\<rparr>)
                  [Deliver (KeyMsg ''y''), Deliver (KeyMsg ''enter'')])) \<noteq> None"
proof -
  let ?evs = "[Deliver (KeyMsg ''y''), Deliver (KeyMsg ''enter'')]"
  let ?m = "(NewModel demo_conf)\<lparr>cur_value := Yes, term_flag := Submitted\<rparr>"
  have fw: "final_width closed_stdout_env demo_conf ?evs = 0"
    unfolding final_width_def using demo_start_yes(2) [of demo_conf]
    by (simp add: NewModel_def)
  have w: "write_failed closed_stdout_env demo_conf ?evs"
    unfolding write_failed_def closed_stdout_exec closed_stdout_run fw
    by (simp add: closed_stdout_env_def demo_env_def)
  have v: "live_render_failed demo_env (demo_conf\<lparr>Template := ''{{''\<rparr>) ?evs"
    unfolding live_render_failed_def loop_end_def live_parse_fail_init live_parse_fail_start
    by simp
  show ?thesis
    using w v RunPrompt_error_iff [of closed_stdout_env demo_conf ?evs]
      RunPrompt_error_iff [of demo_env "demo_conf\<lparr>Template := ''{{''\<rparr>" ?evs]
    by blast
qed

end
